theory Spec2Isabelle
  imports Main
begin

section \<open>Go values used by package gitinterface\<close>

subsection \<open>Errors\<close>

text \<open>
  The package declares seven error singletons with \<^verbatim>\<open>errors.New\<close>. An error value
  reaching a caller is one of these, an error produced by a library or by the operating
  system (kept by its diagnostic text), the result of \<^verbatim>\<open>errors.Join\<close>, or the result
  of \<^verbatim>\<open>fmt.Errorf\<close> with a \<^verbatim>\<open>%w\<close> verb. Go's \<^verbatim>\<open>nil\<close> error is \<open>None\<close>.
\<close>

datatype sentinel =
    SigningKeyNotSpecified
  | UnknownSigningMethod
  | UnableToSign
  | IncorrectVerificationKey
  | VerifyingSigstoreSignature
  | VerifyingSSHSignature
  | InvalidSignature

datatype go_error =
    Sentinel sentinel
  | Foreign string
  | Joined "go_error list"
  | Wrapped string go_error

abbreviation ErrSigningKeyNotSpecified :: go_error where
  "ErrSigningKeyNotSpecified \<equiv> Sentinel SigningKeyNotSpecified"
abbreviation ErrUnknownSigningMethod :: go_error where
  "ErrUnknownSigningMethod \<equiv> Sentinel UnknownSigningMethod"
abbreviation ErrUnableToSign :: go_error where
  "ErrUnableToSign \<equiv> Sentinel UnableToSign"
abbreviation ErrIncorrectVerificationKey :: go_error where
  "ErrIncorrectVerificationKey \<equiv> Sentinel IncorrectVerificationKey"
abbreviation ErrVerifyingSigstoreSignature :: go_error where
  "ErrVerifyingSigstoreSignature \<equiv> Sentinel VerifyingSigstoreSignature"
abbreviation ErrVerifyingSSHSignature :: go_error where
  "ErrVerifyingSSHSignature \<equiv> Sentinel VerifyingSSHSignature"
abbreviation ErrInvalidSignature :: go_error where
  "ErrInvalidSignature \<equiv> Sentinel InvalidSignature"

text \<open>
  \<^verbatim>\<open>errors.Join(errs...)\<close> drops the nil arguments, returns nil when none is left, and
  otherwise an error that unwraps to the remaining ones in order.
\<close>

definition errors_Join :: "go_error option list \<Rightarrow> go_error option" where
  "errors_Join errs =
     (let es = List.map_filter (\<lambda>e. e) errs
      in if es = [] then None else Some (Joined es))"

text \<open>
  \<^verbatim>\<open>errors.Is(err, target)\<close>: \<open>err\<close> is the target, or something it unwraps to is.
  A joined error unwraps to each of its members, a \<^verbatim>\<open>%w\<close> error to the one it wraps.
\<close>

fun errors_Is :: "go_error \<Rightarrow> go_error \<Rightarrow> bool" where
  "errors_Is (Joined es) target =
     (Joined es = target \<or> list_ex (\<lambda>e. errors_Is e target) es)"
| "errors_Is (Wrapped m e) target = (Wrapped m e = target \<or> errors_Is e target)"
| "errors_Is e target = (e = target)"

subsection \<open>Package strings\<close>

text \<open>
  \<^verbatim>\<open>strings.Split(s, sep)\<close> for a non-empty separator: the pieces of \<open>s\<close> between the
  non-overlapping occurrences of \<open>sep\<close>, found from the left; always at least one piece.
  The source only splits at \<^verbatim>\<open>" "\<close> and \<^verbatim>\<open>"\n"\<close>; the empty separator (which explodes
  the string into UTF-8 sequences) is never used and is not modelled: here it gives \<open>[s]\<close>.
  \<open>split_from sep acc s\<close> scans \<open>s\<close> with \<open>acc\<close> the piece read so far.
\<close>

function split_from :: "string \<Rightarrow> string \<Rightarrow> string \<Rightarrow> string list" where
  "split_from sep acc [] = [acc]"
| "split_from sep acc (c # cs) =
     (if sep \<noteq> [] \<and> take (length sep) (c # cs) = sep
      then acc # split_from sep [] (drop (length sep) (c # cs))
      else split_from sep (acc @ [c]) cs)"
  by pat_completeness auto
termination
  by (relation "measure (\<lambda>(sep, acc, s). length s)") auto

definition Split :: "string \<Rightarrow> string \<Rightarrow> string list" where
  "Split s sep = split_from sep [] s"

text \<open>\<^verbatim>\<open>strings.Join(elems, sep)\<close>: the elements with \<open>sep\<close> between neighbours.\<close>

fun Join :: "string list \<Rightarrow> string \<Rightarrow> string" where
  "Join [] sep = []"
| "Join [x] sep = x"
| "Join (x # y # ys) sep = x @ sep @ Join (y # ys) sep"

text \<open>
  \<^verbatim>\<open>strings.ToLower\<close> and \<^verbatim>\<open>strings.TrimSpace\<close> decode UTF-8 and consult the Unicode
  tables, which are not part of this repository: the functions that call them take them
  as parameters \<open>toLower\<close> and \<open>trimSpace\<close>. On strings of ASCII bytes they are the two
  functions below (letters \<^verbatim>\<open>A\<close> to \<^verbatim>\<open>Z\<close> are moved to \<^verbatim>\<open>a\<close> to \<^verbatim>\<open>z\<close>; the ASCII white space
  is tab, line feed, vertical tab, form feed, carriage return and space).
\<close>

definition lower_byte :: "char \<Rightarrow> char" where
  "lower_byte c =
     (case map_of (zip ''ABCDEFGHIJKLMNOPQRSTUVWXYZ'' ''abcdefghijklmnopqrstuvwxyz'') c of
        Some l \<Rightarrow> l
      | None \<Rightarrow> c)"

definition ToLower_ascii :: "string \<Rightarrow> string" where
  "ToLower_ascii s = map lower_byte s"

definition asciiSpace :: "char \<Rightarrow> bool" where
  "asciiSpace c = ((of_char c :: nat) \<in> {9, 10, 11, 12, 13, 32})"

definition TrimSpace_ascii :: "string \<Rightarrow> string" where
  "TrimSpace_ascii s = rev (dropWhile asciiSpace (rev (dropWhile asciiSpace s)))"

section \<open>Signing method resolver (keys.go)\<close>

text \<open>
  \<^verbatim>\<open>type SigningMethod int\<close> with the three constants numbered by \<^verbatim>\<open>iota\<close>; the error
  paths return the value \<open>-1\<close>, which is none of them.
\<close>

type_synonym SigningMethod = int

definition SigningMethodGPG :: SigningMethod where "SigningMethodGPG = 0"
definition SigningMethodSSH :: SigningMethod where "SigningMethodSSH = 1"
definition SigningMethodX509 :: SigningMethod where "SigningMethodX509 = 2"

definition DefaultSigningProgramGPG :: string where "DefaultSigningProgramGPG = ''gpg''"
definition DefaultSigningProgramSSH :: string where "DefaultSigningProgramSSH = ''ssh-keygen''"
definition DefaultSigningProgramX509 :: string where "DefaultSigningProgramX509 = ''gpgsm''"

definition namespaceSSHSignature :: string where "namespaceSSHSignature = ''git''"

text \<open>A \<^verbatim>\<open>map[string]string\<close>; the nil map reads like the empty one.\<close>

type_synonym gitConfig = "string \<rightharpoonup> string"

definition getSigningMethod :: "gitConfig \<Rightarrow> SigningMethod \<times> go_error option" where
  "getSigningMethod gitConfig =
     (case gitConfig ''gpg.format'' of
        None \<Rightarrow> (SigningMethodGPG, None)
      | Some format \<Rightarrow>
          if format = ''gpg'' then (SigningMethodGPG, None)
          else if format = ''ssh'' then (SigningMethodSSH, None)
          else if format = ''x509'' then (SigningMethodX509, None)
          else (-1, Some ErrUnknownSigningMethod))"

definition getSigningKeyInfo :: "gitConfig \<Rightarrow> string" where
  "getSigningKeyInfo gitConfig =
     (case gitConfig ''user.signingkey'' of None \<Rightarrow> '''' | Some keyInfo \<Rightarrow> keyInfo)"

definition getSigningProgram :: "gitConfig \<Rightarrow> SigningMethod \<Rightarrow> string" where
  "getSigningProgram gitConfig signingMethod =
     (if signingMethod = SigningMethodSSH then
        (case gitConfig ''gpg.ssh.program'' of
           Some program \<Rightarrow> program | None \<Rightarrow> DefaultSigningProgramSSH)
      else if signingMethod = SigningMethodX509 then
        (case gitConfig ''gpg.x509.program'' of
           Some program \<Rightarrow> program | None \<Rightarrow> DefaultSigningProgramX509)
      else
        (case gitConfig ''gpg.program'' of
           Some program \<Rightarrow> program | None \<Rightarrow> DefaultSigningProgramGPG))"

text \<open>
  \<^verbatim>\<open>getConfig\<close> (second file of the package) asks \<^verbatim>\<open>getGitConfigFromCommand\<close> for a
  reader and scans it line by line. The parameter is what that call gives: its error
  (by diagnostic text), or the lines the \<^verbatim>\<open>bufio.Scanner\<close> yields, in order. A line with
  fewer than two space-separated pieces is skipped; keys are taken as they are.
\<close>

fun getConfig_scan :: "gitConfig \<Rightarrow> string list \<Rightarrow> gitConfig" where
  "getConfig_scan config [] = config"
| "getConfig_scan config (raw # rest) =
     (let data = Split raw '' ''
      in if length data < 2 then getConfig_scan config rest
         else getConfig_scan (config(data ! 0 \<mapsto> Join (drop 1 data) '' '')) rest)"

definition getConfig :: "string + string list \<Rightarrow> gitConfig \<times> go_error option" where
  "getConfig configReader =
     (case configReader of
        Inl diag \<Rightarrow> (Map.empty, Some (Foreign diag))
      | Inr scanned \<Rightarrow> (getConfig_scan Map.empty scanned, None))"

definition getSigningInfo ::
  "string + string list \<Rightarrow> SigningMethod \<times> string \<times> string \<times> go_error option" where
  "getSigningInfo configReader =
     (case getConfig configReader of
        (gitConfig, Some err) \<Rightarrow> (-1, '''', '''', Some err)
      | (gitConfig, None) \<Rightarrow>
          (case getSigningMethod gitConfig of
             (signingMethod, Some err) \<Rightarrow> (-1, '''', '''', Some err)
           | (signingMethod, None) \<Rightarrow>
               (signingMethod, getSigningKeyInfo gitConfig,
                getSigningProgram gitConfig signingMethod, None)))"

text \<open>
  \<^verbatim>\<open>GetSigningCommand\<close> returns the program, the argument slice (\<open>None\<close> is the nil
  slice) and the error.
\<close>

definition GetSigningCommand ::
  "string + string list \<Rightarrow> string \<times> string list option \<times> go_error option" where
  "GetSigningCommand configReader =
     (case getSigningInfo configReader of
        (signingMethod, keyInfo, program, Some err) \<Rightarrow> ('''', None, Some err)
      | (signingMethod, keyInfo, program, None) \<Rightarrow>
          if signingMethod = SigningMethodGPG then
            (if length keyInfo = 0 then (program, Some [''-bsa''], None)
             else (program, Some [''-bsau'', keyInfo], None))
          else if signingMethod = SigningMethodSSH then
            (if length keyInfo = 0 then ('''', None, Some ErrSigningKeyNotSpecified)
             else (program, Some [''-Y'', ''sign'', ''-n'', ''git'', ''-f'', keyInfo], None))
          else if signingMethod = SigningMethodX509 then
            (if length keyInfo = 0 then (program, Some [''-bsa''], None)
             else (program, Some [''-bsau'', keyInfo], None))
          else ('''', None, Some ErrUnknownSigningMethod))"

section \<open>Subprocess signer (keys.go)\<close>

text \<open>
  \<^verbatim>\<open>signGitObject\<close> starts the signing program and talks to it through three pipes.
  What the operating system answers to each call is a \<open>proc_run\<close>: an error is given by
  its diagnostic text, \<open>None\<close> is success, and \<^verbatim>\<open>io.ReadAll\<close> gives an error or the bytes
  read. The parameter \<open>exec\<close> gives the answers for a program, its arguments and the bytes
  written to its standard input. The model returns the function's pair and, beside it,
  what the function printed on its own standard error.
\<close>

record proc_run =
  StdinPipe_err :: "string option"
  StdoutPipe_err :: "string option"
  StderrPipe_err :: "string option"
  Start_err :: "string option"
  Write_err :: "string option"
  Close_err :: "string option"
  ReadAll_stdout :: "string + string"
  ReadAll_stderr :: "string + string"
  Wait_err :: "string option"

definition signGitObject ::
  "string + string list \<Rightarrow> (string \<Rightarrow> string list \<Rightarrow> string \<Rightarrow> proc_run) \<Rightarrow> string
     \<Rightarrow> (string \<times> go_error option) \<times> string" where
  "signGitObject configReader exec contents =
     (case GetSigningCommand configReader of
        (command, args, Some err) \<Rightarrow> (([], Some err), [])
      | (command, args, None) \<Rightarrow>
     (let cmd = exec command (case args of None \<Rightarrow> [] | Some a \<Rightarrow> a) contents in
      case StdinPipe_err cmd of Some d \<Rightarrow> (([], Some (Foreign d)), []) | None \<Rightarrow>
      case StdoutPipe_err cmd of Some d \<Rightarrow> (([], Some (Foreign d)), []) | None \<Rightarrow>
      case StderrPipe_err cmd of Some d \<Rightarrow> (([], Some (Foreign d)), []) | None \<Rightarrow>
      case Start_err cmd of Some d \<Rightarrow> (([], Some (Foreign d)), []) | None \<Rightarrow>
      case Write_err cmd of Some d \<Rightarrow> (([], Some (Foreign d)), []) | None \<Rightarrow>
      case Close_err cmd of Some d \<Rightarrow> (([], Some (Foreign d)), []) | None \<Rightarrow>
      case ReadAll_stdout cmd of Inl d \<Rightarrow> (([], Some (Foreign d)), []) | Inr sig \<Rightarrow>
      case ReadAll_stderr cmd of Inl d \<Rightarrow> (([], Some (Foreign d)), []) | Inr e \<Rightarrow>
     (let printed = (if length e > 0 then e else []) in
      case Wait_err cmd of Some d \<Rightarrow> (([], Some (Foreign d)), printed) | None \<Rightarrow>
      if length sig = 0 then (([], Some ErrUnableToSign), printed)
      else ((sig, None), printed))))"

section \<open>Key-material signer (keys.go)\<close>


datatype HashAlgorithm = HashSHA256 | HashSHA512






section \<open>Verifiers (keys.go)\<close>

text \<open>
  The fields of \<^verbatim>\<open>tuf.Key\<close> this file reads (the type is declared in another package):
  the key material, and the identity and issuer of a keyless key.
\<close>

record tuf_Key =
  KeyVal_Public :: string
  KeyVal_Identity :: string
  KeyVal_Issuer :: string

record cosign_Identity =
  Issuer :: string
  Subject :: string

record 'v cosign_CheckOpts =
  RekorClient :: 'v
  RootCerts :: 'v
  IntermediateCerts :: 'v
  CTLogPubKeys :: 'v
  RekorPubKeys :: 'v
  Identities :: "cosign_Identity list"

text \<open>
  The Sigstore libraries. \<open>signerverifier_RekorServer\<close> is the constant of that name
  (declared in another package). The context argument only carries the caller's deadline
  into the libraries; what it causes is part of what each call answers.
\<close>

record 'v sigstore =
  fulcioroots_Get :: "string + 'v"
  fulcioroots_GetIntermediates :: "string + 'v"
  gitsignVerifier_NewCertVerifier :: "'v \<Rightarrow> 'v \<Rightarrow> string + 'v"
  verifier_Verify :: "'v \<Rightarrow> string \<Rightarrow> string \<Rightarrow> bool \<Rightarrow> string + 'v"
  signerverifier_RekorServer :: string
  gitsignRekor_NewWithOptions :: "string \<Rightarrow> string + 'v"
  rekor_Rekor :: "'v \<Rightarrow> 'v"
  rekor_PublicKeys :: "'v \<Rightarrow> 'v"
  cosign_GetCTLogPubs :: "string + 'v"
  cosign_ValidateAndUnpackCert :: "'v \<Rightarrow> 'v cosign_CheckOpts \<Rightarrow> string + 'v"

definition verifyGitsignSignature ::
  "'v sigstore \<Rightarrow> tuf_Key \<Rightarrow> string \<Rightarrow> string \<Rightarrow> go_error option" where
  "verifyGitsignSignature L key data signature =
     (case fulcioroots_Get L of
        Inl err \<Rightarrow> errors_Join [Some ErrVerifyingSigstoreSignature, Some (Foreign err)]
      | Inr root \<Rightarrow>
     (case fulcioroots_GetIntermediates L of
        Inl err \<Rightarrow> errors_Join [Some ErrVerifyingSigstoreSignature, Some (Foreign err)]
      | Inr intermediate \<Rightarrow>
     (case gitsignVerifier_NewCertVerifier L root intermediate of
        Inl err \<Rightarrow> errors_Join [Some ErrVerifyingSigstoreSignature, Some (Foreign err)]
      | Inr verifier \<Rightarrow>
     (case verifier_Verify L verifier data signature True of
        Inl err \<Rightarrow> Some ErrIncorrectVerificationKey
      | Inr verifiedCert \<Rightarrow>
     (case gitsignRekor_NewWithOptions L (signerverifier_RekorServer L) of
        Inl err \<Rightarrow> errors_Join [Some ErrVerifyingSigstoreSignature, Some (Foreign err)]
      | Inr rekor \<Rightarrow>
     (case cosign_GetCTLogPubs L of
        Inl err \<Rightarrow> errors_Join [Some ErrVerifyingSigstoreSignature, Some (Foreign err)]
      | Inr ctPub \<Rightarrow>
     (let checkOpts =
            \<lparr> RekorClient = rekor_Rekor L rekor,
              RootCerts = root,
              IntermediateCerts = intermediate,
              CTLogPubKeys = ctPub,
              RekorPubKeys = rekor_PublicKeys L rekor,
              Identities =
                [\<lparr> Issuer = KeyVal_Issuer key, Subject = KeyVal_Identity key \<rparr>] \<rparr>
      in case cosign_ValidateAndUnpackCert L verifiedCert checkOpts of
           Inl err \<Rightarrow> errors_Join [Some ErrIncorrectVerificationKey, Some (Foreign err)]
         | Inr _ \<Rightarrow> None)))))))"

record 'v sshlibs =
  signerverifier_NewSignerVerifierFromTUFKey :: "tuf_Key \<Rightarrow> string + 'v"
  verifier_Public :: "'v \<Rightarrow> 'v"
  ssh_NewPublicKey :: "'v \<Rightarrow> string + 'v"
  sshsig_Unarmor :: "string \<Rightarrow> string + 'v"
  sig_HashAlgorithm :: "'v \<Rightarrow> HashAlgorithm"
  sshsig_Verify :: "string \<Rightarrow> 'v \<Rightarrow> 'v \<Rightarrow> HashAlgorithm \<Rightarrow> string \<Rightarrow> string option"

definition verifySSHKeySignature ::
  "'v sshlibs \<Rightarrow> tuf_Key \<Rightarrow> string \<Rightarrow> string \<Rightarrow> go_error option" where
  "verifySSHKeySignature L key data signature =
     (case signerverifier_NewSignerVerifierFromTUFKey L key of
        Inl err \<Rightarrow> errors_Join [Some ErrVerifyingSSHSignature, Some (Foreign err)]
      | Inr verifier \<Rightarrow>
     (case ssh_NewPublicKey L (verifier_Public L verifier) of
        Inl err \<Rightarrow> errors_Join [Some ErrVerifyingSSHSignature, Some (Foreign err)]
      | Inr publicKey \<Rightarrow>
     (case sshsig_Unarmor L signature of
        Inl err \<Rightarrow> errors_Join [Some ErrVerifyingSSHSignature, Some (Foreign err)]
      | Inr sshSignature \<Rightarrow>
     (case sshsig_Verify L data sshSignature publicKey
             (sig_HashAlgorithm L sshSignature) namespaceSSHSignature of
        Some err \<Rightarrow> errors_Join [Some ErrIncorrectVerificationKey, Some (Foreign err)]
      | None \<Rightarrow> None))))"

section \<open>Configuration store adapter (second file of the package)\<close>

text \<open>
  \<^verbatim>\<open>Repository.GetGitConfig\<close> runs \<^verbatim>\<open>git config --get-regexp .*\<close> through
  \<^verbatim>\<open>executeGitCommandString\<close>, a method defined outside these sources: the parameter
  \<open>run\<close> is what that call returns, an error (by diagnostic text) or the standard output.
  \<open>GetGitConfig_body\<close> is the body of the loop over the lines.
\<close>

definition GetGitConfig_body :: "(string \<Rightarrow> string) \<Rightarrow> gitConfig \<Rightarrow> string \<Rightarrow> gitConfig" where
  "GetGitConfig_body toLower config line =
     (let split = Split line '' ''
      in if length split < 2 then config
         else config(toLower (split ! 0) \<mapsto> Join (drop 1 split) '' ''))"

definition GetGitConfig ::
  "(string \<Rightarrow> string) \<Rightarrow> (string \<Rightarrow> string) \<Rightarrow> string + string
     \<Rightarrow> gitConfig \<times> go_error option" where
  "GetGitConfig toLower trimSpace run =
     (case run of
        Inl err \<Rightarrow> (Map.empty, Some (Wrapped ''unable to read Git config: '' (Foreign err)))
      | Inr stdOut \<Rightarrow>
          (let lines = Split (trimSpace stdOut) [CHR 0x0A]
           in (foldl (GetGitConfig_body toLower) Map.empty lines, None)))"

text \<open>
  The reading rule as the specification words it, for comparison with the loop body:
  the tokens of a line are its maximal runs of characters that are not white space; the
  first token, lowercased, is the key; the other tokens joined by single spaces are the
  value; a line with fewer than two tokens adds nothing.
\<close>

fun tokens_from :: "string \<Rightarrow> string \<Rightarrow> string list" where
  "tokens_from acc [] = (if acc = [] then [] else [acc])"
| "tokens_from acc (c # cs) =
     (if asciiSpace c
      then (if acc = [] then tokens_from [] cs else acc # tokens_from [] cs)
      else tokens_from (acc @ [c]) cs)"

definition spec_tokens :: "string \<Rightarrow> string list" where
  "spec_tokens line = tokens_from [] line"

definition spec_read_line :: "(string \<Rightarrow> string) \<Rightarrow> gitConfig \<Rightarrow> string \<Rightarrow> gitConfig" where
  "spec_read_line toLower config line =
     (case spec_tokens line of
        k # v # vs \<Rightarrow> config(toLower k \<mapsto> Join (v # vs) '' '')
      | _ \<Rightarrow> config)"

text \<open>
  The reading rule as the loop body has it, for stating what \<^verbatim>\<open>GetGitConfig\<close> returns:
  the key text of a line is what stands before its first space character, its value text
  what stands after that first space; \<open>entries_for toLower key lines\<close> are the lines that
  hold a space and whose key text, lowercased, is \<open>key\<close>, in their order.
\<close>

definition line_key :: "string \<Rightarrow> string" where
  "line_key line = takeWhile (\<lambda>c. c \<noteq> CHR '' '') line"

definition line_value :: "string \<Rightarrow> string" where
  "line_value line = drop 1 (dropWhile (\<lambda>c. c \<noteq> CHR '' '') line)"

definition entries_for :: "(string \<Rightarrow> string) \<Rightarrow> string \<Rightarrow> string list \<Rightarrow> string list" where
  "entries_for toLower key lines =
     filter (\<lambda>line. CHR '' '' \<in> set line \<and> toLower (line_key line) = key) lines"

section \<open>Error categories\<close>

text \<open>
  \<open>reported_as r s\<close>: the call failed, and of the package's seven error singletons its
  error matches \<open>s\<close> under \<^verbatim>\<open>errors.Is\<close> and no other.
\<close>

definition sentinels :: "sentinel list" where
  "sentinels = [SigningKeyNotSpecified, UnknownSigningMethod, UnableToSign,
     IncorrectVerificationKey, VerifyingSigstoreSignature, VerifyingSSHSignature,
     InvalidSignature]"

definition reported_as :: "go_error option \<Rightarrow> sentinel \<Rightarrow> bool" where
  "reported_as r s =
     (case r of
        None \<Rightarrow> False
      | Some e \<Rightarrow> list_all (\<lambda>t. errors_Is e (Sentinel t) = (t = s)) sentinels)"

section \<open>Stand-in libraries for evaluation\<close>

text \<open>
  Libraries over the opaque values \<open>nat\<close> in which the \<open>n\<close>-th call of the verifier
  fails with a fixed diagnostic text and every other call succeeds (none fails for
  \<open>n = 0\<close>), and a keyless trust key.
\<close>

definition sigstore_failing :: "nat \<Rightarrow> nat sigstore" where
  "sigstore_failing n =
     \<lparr> fulcioroots_Get = (if n = 1 then Inl ''no roots'' else Inr 10),
       fulcioroots_GetIntermediates = (if n = 2 then Inl ''no intermediates'' else Inr 11),
       gitsignVerifier_NewCertVerifier = (\<lambda>root intermediate.
          if n = 3 then Inl ''no verifier'' else Inr 12),
       verifier_Verify = (\<lambda>verifier data signature tlog.
          if n = 4 then Inl ''x509: certificate signed by unknown authority'' else Inr 13),
       signerverifier_RekorServer = ''https://rekor.sigstore.dev'',
       gitsignRekor_NewWithOptions = (\<lambda>url. if n = 5 then Inl ''no rekor client'' else Inr 14),
       rekor_Rekor = (\<lambda>rekor. 15),
       rekor_PublicKeys = (\<lambda>rekor. 16),
       cosign_GetCTLogPubs = (if n = 6 then Inl ''no CT log keys'' else Inr 17),
       cosign_ValidateAndUnpackCert = (\<lambda>cert opts.
          if n = 7 then Inl ''none of the expected identities matched'' else Inr cert) \<rparr>"

definition sshlibs_failing :: "nat \<Rightarrow> nat sshlibs" where
  "sshlibs_failing n =
     \<lparr> signerverifier_NewSignerVerifierFromTUFKey = (\<lambda>key.
          if n = 1 then Inl ''unsupported key type'' else Inr 20),
       verifier_Public = (\<lambda>verifier. 21),
       ssh_NewPublicKey = (\<lambda>pub. if n = 2 then Inl ''ssh: unsupported key type'' else Inr 22),
       sshsig_Unarmor = (\<lambda>signature.
          if n = 3 then Inl ''invalid signature armor'' else Inr 23),
       sig_HashAlgorithm = (\<lambda>sshSignature. HashSHA512),
       sshsig_Verify = (\<lambda>data sshSignature publicKey h namespace.
          if n = 4 then Some ''ssh: signature did not verify'' else None) \<rparr>"

definition key_example :: tuf_Key where
  "key_example =
     \<lparr> KeyVal_Public = [], KeyVal_Identity = ''jane@example.com'',
       KeyVal_Issuer = ''https://accounts.example.com'' \<rparr>"

text \<open>
  An operating system under which the signing program starts, takes its input, writes
  nothing to its standard output, writes \<open>e\<close> to its standard error and exits with
  status zero; and key libraries whose block decoder reads the type after the prefix
  \<^verbatim>\<open>TYPE=\<close> and finds no block in any other input.
\<close>

definition exec_silent :: "string \<Rightarrow> string \<Rightarrow> string list \<Rightarrow> string \<Rightarrow> proc_run" where
  "exec_silent e command args contents =
     \<lparr> StdinPipe_err = None, StdoutPipe_err = None, StderrPipe_err = None,
       Start_err = None, Write_err = None, Close_err = None,
       ReadAll_stdout = Inr [], ReadAll_stderr = Inr e, Wait_err = None \<rparr>"


section \<open>Properties of the resolver\<close>

lemma SigningMethod_distinct:
  "SigningMethodGPG \<noteq> SigningMethodSSH" "SigningMethodGPG \<noteq> SigningMethodX509"
  "SigningMethodSSH \<noteq> SigningMethodX509" "SigningMethodSSH \<noteq> SigningMethodGPG"
  "SigningMethodX509 \<noteq> SigningMethodGPG" "SigningMethodX509 \<noteq> SigningMethodSSH"
  by (simp_all add: SigningMethodGPG_def SigningMethodSSH_def SigningMethodX509_def)

text \<open>
  C1. Method resolution reads nothing of the configuration map but its
  \<^verbatim>\<open>gpg.format\<close> entry: two maps that agree there resolve alike. An absent entry gives
  GPG, the values \<^verbatim>\<open>gpg\<close>, \<^verbatim>\<open>ssh\<close> and \<^verbatim>\<open>x509\<close> give GPG, SSH and X509 with no error,
  and every other value gives the error UnknownSigningMethod (with method \<open>-1\<close>).
\<close>

theorem getSigningMethod_by_format:
  "(c1 ''gpg.format'' = c2 ''gpg.format'' \<longrightarrow> getSigningMethod c1 = getSigningMethod c2)
   \<and> (gitConfig ''gpg.format'' = None \<longrightarrow>
        getSigningMethod gitConfig = (SigningMethodGPG, None))
   \<and> (gitConfig ''gpg.format'' = Some ''gpg'' \<longrightarrow>
        getSigningMethod gitConfig = (SigningMethodGPG, None))
   \<and> (gitConfig ''gpg.format'' = Some ''ssh'' \<longrightarrow>
        getSigningMethod gitConfig = (SigningMethodSSH, None))
   \<and> (gitConfig ''gpg.format'' = Some ''x509'' \<longrightarrow>
        getSigningMethod gitConfig = (SigningMethodX509, None))
   \<and> (gitConfig ''gpg.format'' = Some v \<and> v \<noteq> ''gpg'' \<and> v \<noteq> ''ssh'' \<and> v \<noteq> ''x509'' \<longrightarrow>
        getSigningMethod gitConfig = (-1, Some ErrUnknownSigningMethod))"
  by (simp add: getSigningMethod_def)

theorem getSigningMethod_by_format_witness:
  "getSigningMethod Map.empty = (SigningMethodGPG, None)
   \<and> getSigningMethod [''gpg.format'' \<mapsto> ''gpg''] = (SigningMethodGPG, None)
   \<and> getSigningMethod [''gpg.format'' \<mapsto> ''ssh''] = (SigningMethodSSH, None)
   \<and> getSigningMethod [''gpg.format'' \<mapsto> ''x509''] = (SigningMethodX509, None)
   \<and> getSigningMethod [''gpg.format'' \<mapsto> ''bogus''] = (-1, Some ErrUnknownSigningMethod)
   \<and> getSigningMethod [''gpg.format'' \<mapsto> ''ssh'', ''user.signingkey'' \<mapsto> ''k'']
       = getSigningMethod [''gpg.format'' \<mapsto> ''ssh'']"
proof -
  have absent: "getSigningMethod Map.empty = (SigningMethodGPG, None)"
    using getSigningMethod_by_format [of Map.empty Map.empty Map.empty "[]"] by simp
  have gpg: "getSigningMethod [''gpg.format'' \<mapsto> ''gpg''] = (SigningMethodGPG, None)"
    using getSigningMethod_by_format
      [of Map.empty Map.empty "[''gpg.format'' \<mapsto> ''gpg'']" "[]"] by simp
  have ssh: "getSigningMethod [''gpg.format'' \<mapsto> ''ssh''] = (SigningMethodSSH, None)"
    using getSigningMethod_by_format
      [of Map.empty Map.empty "[''gpg.format'' \<mapsto> ''ssh'']" "[]"] by simp
  have x509: "getSigningMethod [''gpg.format'' \<mapsto> ''x509''] = (SigningMethodX509, None)"
    using getSigningMethod_by_format
      [of Map.empty Map.empty "[''gpg.format'' \<mapsto> ''x509'']" "[]"] by simp
  have bogus:
    "getSigningMethod [''gpg.format'' \<mapsto> ''bogus''] = (-1, Some ErrUnknownSigningMethod)"
    using getSigningMethod_by_format
      [of Map.empty Map.empty "[''gpg.format'' \<mapsto> ''bogus'']" "''bogus''"] by simp
  have same:
    "getSigningMethod [''gpg.format'' \<mapsto> ''ssh'', ''user.signingkey'' \<mapsto> ''k'']
       = getSigningMethod [''gpg.format'' \<mapsto> ''ssh'']"
    using getSigningMethod_by_format
      [of "[''gpg.format'' \<mapsto> ''ssh'', ''user.signingkey'' \<mapsto> ''k'']"
          "[''gpg.format'' \<mapsto> ''ssh'']" Map.empty "[]"] by simp
  from absent gpg ssh x509 bogus same show ?thesis by blast
qed

text \<open>
  C4. Whenever the configuration was read, the method resolves to SSH and the
  \<^verbatim>\<open>user.signingkey\<close> entry is absent or the empty string, \<^verbatim>\<open>GetSigningCommand\<close>
  returns the empty program string, the nil argument slice and the error
  SigningKeyNotSpecified.
\<close>

theorem GetSigningCommand_ssh_key_missing:
  assumes "getConfig configReader = (gitConfig, None)"
    and "getSigningMethod gitConfig = (SigningMethodSSH, None)"
    and "gitConfig ''user.signingkey'' = None \<or> gitConfig ''user.signingkey'' = Some []"
  shows "GetSigningCommand configReader = ([], None, Some ErrSigningKeyNotSpecified)"
proof -
  from assms(3) have "getSigningKeyInfo gitConfig = []"
    by (auto simp: getSigningKeyInfo_def)
  with assms(1,2) show ?thesis
    by (simp add: GetSigningCommand_def getSigningInfo_def SigningMethod_distinct)
qed

theorem GetSigningCommand_ssh_key_missing_witness:
  "GetSigningCommand (Inr [''gpg.format ssh''])
     = ([], None, Some ErrSigningKeyNotSpecified)
   \<and> GetSigningCommand (Inr [''gpg.format ssh'', ''user.signingkey ''])
     = ([], None, Some ErrSigningKeyNotSpecified)"
proof -
  have c1: "getConfig (Inr [''gpg.format ssh'']) = ([''gpg.format'' \<mapsto> ''ssh''], None)"
    by (simp add: getConfig_def Split_def)
  have c2: "getConfig (Inr [''gpg.format ssh'', ''user.signingkey ''])
              = ([''gpg.format'' \<mapsto> ''ssh'', ''user.signingkey'' \<mapsto> []], None)"
    by (simp add: getConfig_def Split_def)
  have m1: "getSigningMethod [''gpg.format'' \<mapsto> ''ssh''] = (SigningMethodSSH, None)"
    by (simp add: getSigningMethod_def)
  have m2: "getSigningMethod [''gpg.format'' \<mapsto> ''ssh'', ''user.signingkey'' \<mapsto> []]
              = (SigningMethodSSH, None)"
    by (simp add: getSigningMethod_def)
  have "GetSigningCommand (Inr [''gpg.format ssh''])
          = ([], None, Some ErrSigningKeyNotSpecified)"
    by (rule GetSigningCommand_ssh_key_missing [OF c1 m1]) simp
  moreover have "GetSigningCommand (Inr [''gpg.format ssh'', ''user.signingkey ''])
          = ([], None, Some ErrSigningKeyNotSpecified)"
    by (rule GetSigningCommand_ssh_key_missing [OF c2 m2]) simp
  ultimately show ?thesis by blast
qed

text \<open>
  C9. Whenever the configuration was read, the method resolves to GPG, the
  \<^verbatim>\<open>user.signingkey\<close> entry is \<^verbatim>\<open>ABCD\<close> and no \<^verbatim>\<open>gpg.program\<close> entry exists,
  \<^verbatim>\<open>GetSigningCommand\<close> returns the default GPG program name, which is \<^verbatim>\<open>gpg\<close>, the
  arguments \<^verbatim>\<open>-bsau ABCD\<close> (detach-sign, sign, armor, local-user) and no error.
\<close>

theorem GetSigningCommand_gpg_ABCD:
  assumes "getConfig configReader = (gitConfig, None)"
    and "getSigningMethod gitConfig = (SigningMethodGPG, None)"
    and "gitConfig ''user.signingkey'' = Some ''ABCD''"
    and "gitConfig ''gpg.program'' = None"
  shows "GetSigningCommand configReader
           = (DefaultSigningProgramGPG, Some [''-bsau'', ''ABCD''], None)
         \<and> DefaultSigningProgramGPG = ''gpg''"
  using assms
  by (simp add: GetSigningCommand_def getSigningInfo_def getSigningKeyInfo_def
      getSigningProgram_def SigningMethod_distinct DefaultSigningProgramGPG_def)

theorem GetSigningCommand_gpg_ABCD_witness:
  "GetSigningCommand (Inr [''user.signingkey ABCD''])
     = (''gpg'', Some [''-bsau'', ''ABCD''], None)
   \<and> GetSigningCommand (Inr [''gpg.format gpg'', ''user.signingkey ABCD''])
     = (''gpg'', Some [''-bsau'', ''ABCD''], None)"
proof -
  have c1: "getConfig (Inr [''user.signingkey ABCD''])
              = ([''user.signingkey'' \<mapsto> ''ABCD''], None)"
    by (simp add: getConfig_def Split_def)
  have c2: "getConfig (Inr [''gpg.format gpg'', ''user.signingkey ABCD''])
              = ([''gpg.format'' \<mapsto> ''gpg'', ''user.signingkey'' \<mapsto> ''ABCD''], None)"
    by (simp add: getConfig_def Split_def)
  have m1: "getSigningMethod [''user.signingkey'' \<mapsto> ''ABCD''] = (SigningMethodGPG, None)"
    by (simp add: getSigningMethod_def)
  have m2: "getSigningMethod [''gpg.format'' \<mapsto> ''gpg'', ''user.signingkey'' \<mapsto> ''ABCD'']
              = (SigningMethodGPG, None)"
    by (simp add: getSigningMethod_def)
  show ?thesis
    using GetSigningCommand_gpg_ABCD [OF c1 m1] GetSigningCommand_gpg_ABCD [OF c2 m2]
    by (simp add: DefaultSigningProgramGPG_def)
qed

section \<open>Properties of the verifiers\<close>

lemma sentinels_all: "set sentinels = UNIV"
proof -
  have "t \<in> set sentinels" for t
    by (cases t) (simp_all add: sentinels_def)
  then show ?thesis by blast
qed

lemma reported_as_iff:
  "reported_as r s \<longleftrightarrow> (\<exists>e. r = Some e \<and> (\<forall>t. errors_Is e (Sentinel t) = (t = s)))"
  by (cases r) (simp_all add: reported_as_def list_all_iff sentinels_all)

lemma reported_as_Sentinel: "reported_as (Some (Sentinel s)) s"
  by (auto simp: reported_as_iff)

lemma reported_as_Joined:
  "reported_as (errors_Join [Some (Sentinel s), Some (Foreign d)]) s"
  by (auto simp: reported_as_iff errors_Join_def)

lemma errors_Join_pair:
  "errors_Join [Some a, Some b] = Some (Joined [a, b])"
  by (simp add: errors_Join_def)

text \<open>
  C2. In the keyless verifier, a failure to obtain the root pool, the intermediate pool,
  the transparency-log client or the CT log keys (and a failure to build the certificate
  verifier) is reported as VerifyingSigstoreSignature and as no other of the package's
  errors; a failure of the certificate-chain verification or of the identity and
  inclusion check is reported as IncorrectVerificationKey and as no other. Whatever the
  libraries answer, the verifier succeeds or reports exactly one of these two.
\<close>

theorem verifyGitsignSignature_categories:
  assumes r: "r = verifyGitsignSignature L key data signature"
  shows "(fulcioroots_Get L = Inl d \<longrightarrow> reported_as r VerifyingSigstoreSignature)
   \<and> (fulcioroots_Get L = Inr root \<and> fulcioroots_GetIntermediates L = Inl d \<longrightarrow>
        reported_as r VerifyingSigstoreSignature)
   \<and> (fulcioroots_Get L = Inr root \<and> fulcioroots_GetIntermediates L = Inr intermediate
        \<and> gitsignVerifier_NewCertVerifier L root intermediate = Inl d \<longrightarrow>
        reported_as r VerifyingSigstoreSignature)
   \<and> (fulcioroots_Get L = Inr root \<and> fulcioroots_GetIntermediates L = Inr intermediate
        \<and> gitsignVerifier_NewCertVerifier L root intermediate = Inr verifier
        \<and> verifier_Verify L verifier data signature True = Inl d \<longrightarrow>
        reported_as r IncorrectVerificationKey)
   \<and> (fulcioroots_Get L = Inr root \<and> fulcioroots_GetIntermediates L = Inr intermediate
        \<and> gitsignVerifier_NewCertVerifier L root intermediate = Inr verifier
        \<and> verifier_Verify L verifier data signature True = Inr verifiedCert
        \<and> gitsignRekor_NewWithOptions L (signerverifier_RekorServer L) = Inl d \<longrightarrow>
        reported_as r VerifyingSigstoreSignature)
   \<and> (fulcioroots_Get L = Inr root \<and> fulcioroots_GetIntermediates L = Inr intermediate
        \<and> gitsignVerifier_NewCertVerifier L root intermediate = Inr verifier
        \<and> verifier_Verify L verifier data signature True = Inr verifiedCert
        \<and> gitsignRekor_NewWithOptions L (signerverifier_RekorServer L) = Inr rekor
        \<and> cosign_GetCTLogPubs L = Inl d \<longrightarrow>
        reported_as r VerifyingSigstoreSignature)
   \<and> (fulcioroots_Get L = Inr root \<and> fulcioroots_GetIntermediates L = Inr intermediate
        \<and> gitsignVerifier_NewCertVerifier L root intermediate = Inr verifier
        \<and> verifier_Verify L verifier data signature True = Inr verifiedCert
        \<and> gitsignRekor_NewWithOptions L (signerverifier_RekorServer L) = Inr rekor
        \<and> cosign_GetCTLogPubs L = Inr ctPub
        \<and> cosign_ValidateAndUnpackCert L verifiedCert
             \<lparr> RekorClient = rekor_Rekor L rekor, RootCerts = root,
               IntermediateCerts = intermediate, CTLogPubKeys = ctPub,
               RekorPubKeys = rekor_PublicKeys L rekor,
               Identities = [\<lparr> Issuer = KeyVal_Issuer key, Subject = KeyVal_Identity key \<rparr>] \<rparr>
             = Inl d \<longrightarrow>
        reported_as r IncorrectVerificationKey)
   \<and> (r = None \<or> reported_as r VerifyingSigstoreSignature
        \<or> reported_as r IncorrectVerificationKey)"
  unfolding r verifyGitsignSignature_def
  by (simp add: reported_as_Joined reported_as_Sentinel Let_def split: sum.split)

theorem verifyGitsignSignature_categories_witness:
  "reported_as (verifyGitsignSignature (sigstore_failing 1) key_example ''data'' ''sig'')
     VerifyingSigstoreSignature
   \<and> reported_as (verifyGitsignSignature (sigstore_failing 2) key_example ''data'' ''sig'')
     VerifyingSigstoreSignature
   \<and> reported_as (verifyGitsignSignature (sigstore_failing 3) key_example ''data'' ''sig'')
     VerifyingSigstoreSignature
   \<and> reported_as (verifyGitsignSignature (sigstore_failing 4) key_example ''data'' ''sig'')
     IncorrectVerificationKey
   \<and> reported_as (verifyGitsignSignature (sigstore_failing 5) key_example ''data'' ''sig'')
     VerifyingSigstoreSignature
   \<and> reported_as (verifyGitsignSignature (sigstore_failing 6) key_example ''data'' ''sig'')
     VerifyingSigstoreSignature
   \<and> reported_as (verifyGitsignSignature (sigstore_failing 7) key_example ''data'' ''sig'')
     IncorrectVerificationKey
   \<and> verifyGitsignSignature (sigstore_failing 0) key_example ''data'' ''sig'' = None"
proof -
  note T = verifyGitsignSignature_categories [OF refl, where key = key_example
      and data = "''data''" and signature = "''sig''"]
  have s1: "reported_as (verifyGitsignSignature (sigstore_failing 1) key_example ''data'' ''sig'')
      VerifyingSigstoreSignature"
    using T [where L = "sigstore_failing 1" and d = "''no roots''"]
    by (simp add: sigstore_failing_def)
  have s2: "reported_as (verifyGitsignSignature (sigstore_failing 2) key_example ''data'' ''sig'')
      VerifyingSigstoreSignature"
    using T [where L = "sigstore_failing 2" and d = "''no intermediates''" and root = 10]
    by (simp add: sigstore_failing_def)
  have s3: "reported_as (verifyGitsignSignature (sigstore_failing 3) key_example ''data'' ''sig'')
      VerifyingSigstoreSignature"
    using T [where L = "sigstore_failing 3" and d = "''no verifier''" and root = 10
        and intermediate = 11]
    by (simp add: sigstore_failing_def)
  have s4: "reported_as (verifyGitsignSignature (sigstore_failing 4) key_example ''data'' ''sig'')
      IncorrectVerificationKey"
    using T [where L = "sigstore_failing 4"
        and d = "''x509: certificate signed by unknown authority''" and root = 10
        and intermediate = 11 and verifier = 12]
    by (simp add: sigstore_failing_def)
  have s5: "reported_as (verifyGitsignSignature (sigstore_failing 5) key_example ''data'' ''sig'')
      VerifyingSigstoreSignature"
    using T [where L = "sigstore_failing 5" and d = "''no rekor client''" and root = 10
        and intermediate = 11 and verifier = 12 and verifiedCert = 13]
    by (simp add: sigstore_failing_def)
  have s6: "reported_as (verifyGitsignSignature (sigstore_failing 6) key_example ''data'' ''sig'')
      VerifyingSigstoreSignature"
    using T [where L = "sigstore_failing 6" and d = "''no CT log keys''" and root = 10
        and intermediate = 11 and verifier = 12 and verifiedCert = 13 and rekor = 14]
    by (simp add: sigstore_failing_def)
  have s7: "reported_as (verifyGitsignSignature (sigstore_failing 7) key_example ''data'' ''sig'')
      IncorrectVerificationKey"
    using T [where L = "sigstore_failing 7"
        and d = "''none of the expected identities matched''" and root = 10
        and intermediate = 11 and verifier = 12 and verifiedCert = 13 and rekor = 14
        and ctPub = 17]
    by (simp add: sigstore_failing_def)
  have s0: "verifyGitsignSignature (sigstore_failing 0) key_example ''data'' ''sig'' = None"
    by (simp add: verifyGitsignSignature_def sigstore_failing_def)
  from s1 s2 s3 s4 s5 s6 s7 s0 show ?thesis by blast
qed




lemma verifyGitsignSignature_chain_failure:
  assumes "fulcioroots_Get L = Inr root"
    and "fulcioroots_GetIntermediates L = Inr intermediate"
    and "gitsignVerifier_NewCertVerifier L root intermediate = Inr verifier"
    and "verifier_Verify L verifier data signature True = Inl d"
  shows "verifyGitsignSignature L key data signature = Some ErrIncorrectVerificationKey"
  using assms by (simp add: verifyGitsignSignature_def)

lemma verifyGitsignSignature_cause_kept:
  assumes "verifyGitsignSignature L key data signature = Some e"
    and "e \<noteq> ErrIncorrectVerificationKey"
  shows "\<exists>s d. e = Joined [Sentinel s, Foreign d]
           \<and> errors_Is e (Sentinel s) \<and> errors_Is e (Foreign d)"
  using assms
  by (auto simp: verifyGitsignSignature_def errors_Join_def Let_def
      split: sum.splits)

text \<open>
  C3, at the stage where it fails. When the certificate-chain verification fails (here
  with the library's text \<^verbatim>\<open>x509: certificate signed by unknown authority\<close>), the
  verifier returns the bare IncorrectVerificationKey singleton: the library's error is
  not attached, \<^verbatim>\<open>errors.Is\<close> does not find it. The identity and inclusion check,
  two steps later, returns the join of the singleton and the library's error.
\<close>

theorem verifyGitsignSignature_chain_failure_drops_cause:
  "verifyGitsignSignature (sigstore_failing 4) key_example ''data'' ''sig''
     = Some ErrIncorrectVerificationKey
   \<and> \<not> errors_Is ErrIncorrectVerificationKey
         (Foreign ''x509: certificate signed by unknown authority'')
   \<and> verifyGitsignSignature (sigstore_failing 7) key_example ''data'' ''sig''
     = Some (Joined [ErrIncorrectVerificationKey,
         Foreign ''none of the expected identities matched''])"
  by (simp add: verifyGitsignSignature_def sigstore_failing_def errors_Join_def)

text \<open>
  C7. In the SSH verifier, a trust key from which no verifier can be made, key material
  that is not an SSH public key, and a signature that cannot be unarmored each return
  the join of VerifyingSSHSignature and the library's error; a signature that does not
  verify returns the join of IncorrectVerificationKey and the library's error. Each is
  reported under its own singleton and under no other.
\<close>

theorem verifySSHKeySignature_categories:
  assumes r: "r = verifySSHKeySignature L key data signature"
  shows "(signerverifier_NewSignerVerifierFromTUFKey L key = Inl d \<longrightarrow>
        r = Some (Joined [ErrVerifyingSSHSignature, Foreign d])
        \<and> reported_as r VerifyingSSHSignature)
   \<and> (signerverifier_NewSignerVerifierFromTUFKey L key = Inr verifier
        \<and> ssh_NewPublicKey L (verifier_Public L verifier) = Inl d \<longrightarrow>
        r = Some (Joined [ErrVerifyingSSHSignature, Foreign d])
        \<and> reported_as r VerifyingSSHSignature)
   \<and> (signerverifier_NewSignerVerifierFromTUFKey L key = Inr verifier
        \<and> ssh_NewPublicKey L (verifier_Public L verifier) = Inr publicKey
        \<and> sshsig_Unarmor L signature = Inl d \<longrightarrow>
        r = Some (Joined [ErrVerifyingSSHSignature, Foreign d])
        \<and> reported_as r VerifyingSSHSignature)
   \<and> (signerverifier_NewSignerVerifierFromTUFKey L key = Inr verifier
        \<and> ssh_NewPublicKey L (verifier_Public L verifier) = Inr publicKey
        \<and> sshsig_Unarmor L signature = Inr sshSignature
        \<and> sshsig_Verify L data sshSignature publicKey
             (sig_HashAlgorithm L sshSignature) namespaceSSHSignature = Some d \<longrightarrow>
        r = Some (Joined [ErrIncorrectVerificationKey, Foreign d])
        \<and> reported_as r IncorrectVerificationKey)"
  unfolding r verifySSHKeySignature_def
  using reported_as_Joined [of VerifyingSSHSignature d]
    reported_as_Joined [of IncorrectVerificationKey d]
  by (simp add: errors_Join_pair)

theorem verifySSHKeySignature_categories_witness:
  "verifySSHKeySignature (sshlibs_failing 1) key_example ''data'' ''sig''
     = Some (Joined [ErrVerifyingSSHSignature, Foreign ''unsupported key type''])
   \<and> verifySSHKeySignature (sshlibs_failing 2) key_example ''data'' ''sig''
     = Some (Joined [ErrVerifyingSSHSignature, Foreign ''ssh: unsupported key type''])
   \<and> verifySSHKeySignature (sshlibs_failing 3) key_example ''data'' ''sig''
     = Some (Joined [ErrVerifyingSSHSignature, Foreign ''invalid signature armor''])
   \<and> verifySSHKeySignature (sshlibs_failing 4) key_example ''data'' ''sig''
     = Some (Joined [ErrIncorrectVerificationKey, Foreign ''ssh: signature did not verify''])
   \<and> reported_as (verifySSHKeySignature (sshlibs_failing 3) key_example ''data'' ''sig'')
       VerifyingSSHSignature
   \<and> reported_as (verifySSHKeySignature (sshlibs_failing 4) key_example ''data'' ''sig'')
       IncorrectVerificationKey"
proof -
  note T = verifySSHKeySignature_categories [OF refl, where key = key_example
      and data = "''data''" and signature = "''sig''"]
  have s1: "verifySSHKeySignature (sshlibs_failing 1) key_example ''data'' ''sig''
     = Some (Joined [ErrVerifyingSSHSignature, Foreign ''unsupported key type''])"
    using T [where L = "sshlibs_failing 1" and d = "''unsupported key type''"]
    by (simp add: sshlibs_failing_def)
  have s2: "verifySSHKeySignature (sshlibs_failing 2) key_example ''data'' ''sig''
     = Some (Joined [ErrVerifyingSSHSignature, Foreign ''ssh: unsupported key type''])"
    using T [where L = "sshlibs_failing 2" and d = "''ssh: unsupported key type''"
        and verifier = 20]
    by (simp add: sshlibs_failing_def)
  have s3: "verifySSHKeySignature (sshlibs_failing 3) key_example ''data'' ''sig''
     = Some (Joined [ErrVerifyingSSHSignature, Foreign ''invalid signature armor''])
     \<and> reported_as (verifySSHKeySignature (sshlibs_failing 3) key_example ''data'' ''sig'')
       VerifyingSSHSignature"
    using T [where L = "sshlibs_failing 3" and d = "''invalid signature armor''"
        and verifier = 20 and publicKey = 22]
    by (auto simp: sshlibs_failing_def)
  have s4: "verifySSHKeySignature (sshlibs_failing 4) key_example ''data'' ''sig''
     = Some (Joined [ErrIncorrectVerificationKey, Foreign ''ssh: signature did not verify''])
     \<and> reported_as (verifySSHKeySignature (sshlibs_failing 4) key_example ''data'' ''sig'')
       IncorrectVerificationKey"
    using T [where L = "sshlibs_failing 4" and d = "''ssh: signature did not verify''"
        and verifier = 20 and publicKey = 22 and sshSignature = 23]
    by (auto simp: sshlibs_failing_def namespaceSSHSignature_def)
  from s1 s2 s3 s4 show ?thesis by blast
qed

section \<open>Properties of the signers\<close>

text \<open>
  C5. Whenever a signing command was resolved, the program was started, its input
  written and closed, both of its output streams read without an I/O error, and it
  exited with status zero, an empty standard output makes \<^verbatim>\<open>signGitObject\<close> return the
  empty string and the error UnableToSign, whatever the payload and whatever the program
  wrote to its standard error (which is printed as it is).
\<close>

theorem signGitObject_empty_stdout:
  assumes "GetSigningCommand configReader = (command, args, None)"
    and "cmd = exec command (case args of None \<Rightarrow> [] | Some a \<Rightarrow> a) contents"
    and "StdinPipe_err cmd = None" and "StdoutPipe_err cmd = None"
    and "StderrPipe_err cmd = None" and "Start_err cmd = None"
    and "Write_err cmd = None" and "Close_err cmd = None"
    and "ReadAll_stdout cmd = Inr []" and "ReadAll_stderr cmd = Inr e"
    and "Wait_err cmd = None"
  shows "signGitObject configReader exec contents = (([], Some ErrUnableToSign), e)"
  using assms by (simp add: signGitObject_def Let_def)

theorem signGitObject_empty_stdout_witness:
  "signGitObject (Inr [''user.signingkey ABCD'']) (exec_silent []) ''tree 4b825dc''
     = (([], Some ErrUnableToSign), [])
   \<and> signGitObject (Inr [''user.signingkey ABCD''])
       (exec_silent ''gpg: using key ABCD'') ''tree 4b825dc''
     = (([], Some ErrUnableToSign), ''gpg: using key ABCD'')"
proof -
  have c: "getConfig (Inr [''user.signingkey ABCD''])
             = ([''user.signingkey'' \<mapsto> ''ABCD''], None)"
    by (simp add: getConfig_def Split_def)
  have g: "GetSigningCommand (Inr [''user.signingkey ABCD''])
             = (''gpg'', Some [''-bsau'', ''ABCD''], None)"
    by (simp add: GetSigningCommand_def getSigningInfo_def c getSigningMethod_def
        getSigningKeyInfo_def getSigningProgram_def SigningMethod_distinct
        DefaultSigningProgramGPG_def)
  have a: "signGitObject (Inr [''user.signingkey ABCD'']) (exec_silent []) ''tree 4b825dc''
     = (([], Some ErrUnableToSign), [])"
    by (rule signGitObject_empty_stdout [OF g refl]) (simp_all add: exec_silent_def)
  have b: "signGitObject (Inr [''user.signingkey ABCD''])
       (exec_silent ''gpg: using key ABCD'') ''tree 4b825dc''
     = (([], Some ErrUnableToSign), ''gpg: using key ABCD'')"
    by (rule signGitObject_empty_stdout [OF g refl]) (simp_all add: exec_silent_def)
  from a b show ?thesis by blast
qed




section \<open>Properties of the configuration read\<close>

lemma split_from_nonempty: "split_from sep acc s \<noteq> []"
  by (induction sep acc s rule: split_from.induct) auto

lemma Join_Cons: "ys \<noteq> [] \<Longrightarrow> Join (x # ys) sep = x @ sep @ Join ys sep"
  by (cases ys) auto

lemma split_from_absent: "c \<notin> set s \<Longrightarrow> split_from [c] acc s = [acc @ s]"
  by (induction s arbitrary: acc) auto

lemma split_from_first:
  "c \<notin> set k \<Longrightarrow> split_from [c] acc (k @ c # v) = (acc @ k) # split_from [c] [] v"
  by (induction k arbitrary: acc) auto

lemma Join_split_from: "Join (split_from [c] acc s) [c] = acc @ s"
  by (induction s arbitrary: acc) (auto simp: Join_Cons split_from_nonempty)

lemma GetGitConfig_body_no_space:
  "CHR '' '' \<notin> set line \<Longrightarrow> GetGitConfig_body toLower config line = config"
  by (simp add: GetGitConfig_body_def Split_def split_from_absent)

lemma GetGitConfig_body_space:
  assumes "CHR '' '' \<notin> set k"
  shows "GetGitConfig_body toLower config (k @ '' '' @ v) = config(toLower k \<mapsto> v)"
proof -
  have sp: "Split (k @ CHR '' '' # v) '' '' = k # split_from '' '' [] v"
    using split_from_first [OF assms, of "[]" v] by (simp add: Split_def)
  obtain p ps where ps: "split_from '' '' [] v = p # ps"
    using split_from_nonempty [of "'' ''" "[]" v] by (cases "split_from '' '' [] v") auto
  have "Join (split_from '' '' [] v) '' '' = v"
    using Join_split_from [of "CHR '' ''" "[]" v] by simp
  with ps show ?thesis
    by (simp add: GetGitConfig_body_def sp)
qed

lemma line_parts:
  assumes "CHR '' '' \<in> set line"
  shows "line = line_key line @ '' '' @ line_value line" "CHR '' '' \<notin> set (line_key line)"
proof -
  from assms have "dropWhile (\<lambda>c. c \<noteq> CHR '' '') line \<noteq> []"
    by (simp add: dropWhile_eq_Nil_conv)
  then obtain r where r: "dropWhile (\<lambda>c. c \<noteq> CHR '' '') line = CHR '' '' # r"
    using hd_dropWhile [of "\<lambda>c. c \<noteq> CHR '' ''" line]
    by (cases "dropWhile (\<lambda>c. c \<noteq> CHR '' '') line") auto
  have "line = takeWhile (\<lambda>c. c \<noteq> CHR '' '') line @ dropWhile (\<lambda>c. c \<noteq> CHR '' '') line"
    by simp
  with r show "line = line_key line @ '' '' @ line_value line"
    by (simp add: line_key_def line_value_def)
  show "CHR '' '' \<notin> set (line_key line)"
    unfolding line_key_def by (auto dest: set_takeWhileD)
qed

lemma GetGitConfig_body_entry:
  "GetGitConfig_body toLower config line =
     (if CHR '' '' \<in> set line then config(toLower (line_key line) \<mapsto> line_value line)
      else config)"
proof (cases "CHR '' '' \<in> set line")
  case True
  have "GetGitConfig_body toLower config (line_key line @ '' '' @ line_value line)
          = config(toLower (line_key line) \<mapsto> line_value line)"
    by (rule GetGitConfig_body_space) (rule line_parts(2) [OF True])
  with line_parts(1) [OF True] True show ?thesis by simp
next
  case False
  then show ?thesis by (simp add: GetGitConfig_body_no_space)
qed

lemma foldl_GetGitConfig_body:
  "foldl (GetGitConfig_body toLower) config lines key =
     (if entries_for toLower key lines = [] then config key
      else Some (line_value (last (entries_for toLower key lines))))"
proof (induction lines arbitrary: config)
  case Nil
  then show ?case by (simp add: entries_for_def)
next
  case (Cons l ls)
  let ?c = "GetGitConfig_body toLower config l"
  have step: "foldl (GetGitConfig_body toLower) config (l # ls) key =
     (if entries_for toLower key ls = [] then ?c key
      else Some (line_value (last (entries_for toLower key ls))))"
    using Cons.IH [of ?c] by simp
  show ?case
  proof (cases "CHR '' '' \<in> set l \<and> toLower (line_key l) = key")
    case True
    then have "?c key = Some (line_value l)"
      by (simp add: GetGitConfig_body_entry)
    moreover from True have "entries_for toLower key (l # ls) = l # entries_for toLower key ls"
      by (simp add: entries_for_def)
    ultimately show ?thesis using step by simp
  next
    case False
    then have "?c key = config key"
      by (auto simp: GetGitConfig_body_entry)
    moreover from False have "entries_for toLower key (l # ls) = entries_for toLower key ls"
      by (auto simp: entries_for_def)
    ultimately show ?thesis using step by simp
  qed
qed

text \<open>
  C8, as the code has it. \<^verbatim>\<open>GetGitConfig\<close> trims the white space from both ends of the
  whole output and splits what is left at line feeds. For every line so obtained: a line
  with no space character adds nothing; otherwise the text before the first space,
  lowercased, is the key and the text after that first space, exactly as it stands, is
  the value (splitting at single spaces and joining with single spaces gives the text
  back, so tabs and runs of spaces inside it stay). Of several lines with the same
  lowercased key the last gives the value. So the map returned holds, under each key, the
  value text of the last such line for that key, and nothing where there is none; no
  error is returned. The output \<^verbatim>\<open>User.Name Jane Doe\<close> yields the one entry
  \<^verbatim>\<open>user.name\<close> with value \<^verbatim>\<open>Jane Doe\<close>.
\<close>

theorem GetGitConfig_reads_lines:
  "fst (GetGitConfig toLower trimSpace (Inr stdOut)) key =
     (let entries = entries_for toLower key (Split (trimSpace stdOut) [CHR 0x0A])
      in if entries = [] then None else Some (line_value (last entries)))
   \<and> snd (GetGitConfig toLower trimSpace (Inr stdOut)) = None
   \<and> GetGitConfig ToLower_ascii TrimSpace_ascii (Inr (''User.Name Jane Doe'' @ [CHR 0x0A]))
       = ([''user.name'' \<mapsto> ''Jane Doe''], None)"
proof -
  have ex: "GetGitConfig ToLower_ascii TrimSpace_ascii
              (Inr (''User.Name Jane Doe'' @ [CHR 0x0A]))
            = ([''user.name'' \<mapsto> ''Jane Doe''], None)"
    by (simp add: GetGitConfig_def GetGitConfig_body_def Split_def TrimSpace_ascii_def
        asciiSpace_def ToLower_ascii_def lower_byte_def)
  have all: "GetGitConfig toLower trimSpace (Inr stdOut)
       = (foldl (GetGitConfig_body toLower) Map.empty
            (Split (trimSpace stdOut) [CHR 0x0A]), None)"
    by (simp add: GetGitConfig_def)
  have look: "fst (GetGitConfig toLower trimSpace (Inr stdOut)) key =
     (let entries = entries_for toLower key (Split (trimSpace stdOut) [CHR 0x0A])
      in if entries = [] then None else Some (line_value (last entries)))"
    by (simp add: all foldl_GetGitConfig_body Let_def)
  have ok: "snd (GetGitConfig toLower trimSpace (Inr stdOut)) = None"
    by (simp add: all)
  from look ok ex show ?thesis by blast
qed

theorem GetGitConfig_reads_lines_witness:
  "fst (GetGitConfig ToLower_ascii TrimSpace_ascii
        (Inr (''User.Name Jane Doe'' @ [CHR 0x0A] @ ''core.bare'' @ [CHR 0x0A])))
      ''user.name'' = Some ''Jane Doe''
   \<and> fst (GetGitConfig ToLower_ascii TrimSpace_ascii
        (Inr (''core.editor vim'' @ [CHR 0x09] @ ''-f  -n'' @ [CHR 0x0A]
              @ ''Core.Editor  nano'' @ [CHR 0x0A])))
      ''core.editor'' = Some '' nano''
   \<and> fst (GetGitConfig ToLower_ascii TrimSpace_ascii
        (Inr (''core.x a'' @ [CHR 0x0A] @ ''user.signingkey '' @ [CHR 0x0A])))
      ''user.signingkey'' = None
   \<and> fst (GetGitConfig ToLower_ascii TrimSpace_ascii
        (Inr (''user.signingkey '' @ [CHR 0x0A] @ ''core.x a'' @ [CHR 0x0A])))
      ''user.signingkey'' = Some []
   \<and> fst (GetGitConfig ToLower_ascii TrimSpace_ascii
        (Inr (''user.name Jane '' @ [CHR 0x0A])))
      ''user.name'' = Some ''Jane''"
proof -
  note E = TrimSpace_ascii_def asciiSpace_def Split_def entries_for_def line_key_def
    line_value_def ToLower_ascii_def lower_byte_def
  have a: "fst (GetGitConfig ToLower_ascii TrimSpace_ascii
        (Inr (''User.Name Jane Doe'' @ [CHR 0x0A] @ ''core.bare'' @ [CHR 0x0A])))
      ''user.name'' = Some ''Jane Doe''"
    using GetGitConfig_reads_lines [where toLower = ToLower_ascii
        and trimSpace = TrimSpace_ascii and key = "''user.name''"
        and stdOut = "''User.Name Jane Doe'' @ [CHR 0x0A] @ ''core.bare'' @ [CHR 0x0A]"]
    by (simp add: E)
  have b: "fst (GetGitConfig ToLower_ascii TrimSpace_ascii
        (Inr (''core.editor vim'' @ [CHR 0x09] @ ''-f  -n'' @ [CHR 0x0A]
              @ ''Core.Editor  nano'' @ [CHR 0x0A])))
      ''core.editor'' = Some '' nano''"
    using GetGitConfig_reads_lines [where toLower = ToLower_ascii
        and trimSpace = TrimSpace_ascii and key = "''core.editor''"
        and stdOut = "''core.editor vim'' @ [CHR 0x09] @ ''-f  -n'' @ [CHR 0x0A]
              @ ''Core.Editor  nano'' @ [CHR 0x0A]"]
    by (simp add: E)
  have c: "fst (GetGitConfig ToLower_ascii TrimSpace_ascii
        (Inr (''core.x a'' @ [CHR 0x0A] @ ''user.signingkey '' @ [CHR 0x0A])))
      ''user.signingkey'' = None"
    using GetGitConfig_reads_lines [where toLower = ToLower_ascii
        and trimSpace = TrimSpace_ascii and key = "''user.signingkey''"
        and stdOut = "''core.x a'' @ [CHR 0x0A] @ ''user.signingkey '' @ [CHR 0x0A]"]
    by (simp add: E)
  have d: "fst (GetGitConfig ToLower_ascii TrimSpace_ascii
        (Inr (''user.signingkey '' @ [CHR 0x0A] @ ''core.x a'' @ [CHR 0x0A])))
      ''user.signingkey'' = Some []"
    using GetGitConfig_reads_lines [where toLower = ToLower_ascii
        and trimSpace = TrimSpace_ascii and key = "''user.signingkey''"
        and stdOut = "''user.signingkey '' @ [CHR 0x0A] @ ''core.x a'' @ [CHR 0x0A]"]
    by (simp add: E)
  have e: "fst (GetGitConfig ToLower_ascii TrimSpace_ascii
        (Inr (''user.name Jane '' @ [CHR 0x0A])))
      ''user.name'' = Some ''Jane''"
    using GetGitConfig_reads_lines [where toLower = ToLower_ascii
        and trimSpace = TrimSpace_ascii and key = "''user.name''"
        and stdOut = "''user.name Jane '' @ [CHR 0x0A]"]
    by (simp add: E)
  from a b c d e show ?thesis by blast
qed

text \<open>
  C8, as the claim words it, fails on a line whose value holds a tab: the tokens between
  white space are \<^verbatim>\<open>user.name\<close>, \<^verbatim>\<open>Jane\<close> and \<^verbatim>\<open>Doe\<close>, so the claimed value is
  \<^verbatim>\<open>Jane Doe\<close> with a single space, while the code stores the value with its tab.
\<close>

theorem GetGitConfig_whitespace_counterexample:
  "GetGitConfig_body ToLower_ascii Map.empty (''user.name Jane'' @ [CHR 0x09] @ ''Doe'')
       ''user.name''
     = Some (''Jane'' @ [CHR 0x09] @ ''Doe'')
   \<and> spec_read_line ToLower_ascii Map.empty (''user.name Jane'' @ [CHR 0x09] @ ''Doe'')
       ''user.name''
     = Some ''Jane Doe''
   \<and> GetGitConfig_body ToLower_ascii Map.empty (''user.name Jane'' @ [CHR 0x09] @ ''Doe'')
     \<noteq> spec_read_line ToLower_ascii Map.empty (''user.name Jane'' @ [CHR 0x09] @ ''Doe'')"
proof -
  have a: "GetGitConfig_body ToLower_ascii Map.empty
             (''user.name Jane'' @ [CHR 0x09] @ ''Doe'') ''user.name''
           = Some (''Jane'' @ [CHR 0x09] @ ''Doe'')"
    by (simp add: GetGitConfig_body_def Split_def ToLower_ascii_def lower_byte_def)
  have b: "spec_read_line ToLower_ascii Map.empty
             (''user.name Jane'' @ [CHR 0x09] @ ''Doe'') ''user.name''
           = Some ''Jane Doe''"
    by (simp add: spec_read_line_def spec_tokens_def asciiSpace_def ToLower_ascii_def
        lower_byte_def)
  from a b have "GetGitConfig_body ToLower_ascii Map.empty
       (''user.name Jane'' @ [CHR 0x09] @ ''Doe'') ''user.name''
     \<noteq> spec_read_line ToLower_ascii Map.empty
       (''user.name Jane'' @ [CHR 0x09] @ ''Doe'') ''user.name''"
    by simp
  then have "GetGitConfig_body ToLower_ascii Map.empty
       (''user.name Jane'' @ [CHR 0x09] @ ''Doe'')
     \<noteq> spec_read_line ToLower_ascii Map.empty (''user.name Jane'' @ [CHR 0x09] @ ''Doe'')"
    by metis
  with a b show ?thesis by blast
qed

text \<open>
  C10. Let \<open>v\<close> differ from \<^verbatim>\<open>gpg\<close>, \<^verbatim>\<open>ssh\<close> or \<^verbatim>\<open>x509\<close> only in letter case. Then
  every configuration map whose \<^verbatim>\<open>gpg.format\<close> entry is \<open>v\<close> resolves to the error
  UnknownSigningMethod; and the configuration read stores \<open>v\<close> as it stands under the
  lowercased key, so the map read from a line \<^verbatim>\<open>Gpg.Format v\<close> (the key in any letter
  case) resolves to that error too.
\<close>

theorem format_value_case_sensitive:
  assumes "ToLower_ascii v \<in> {''gpg'', ''ssh'', ''x509''}"
    and "v \<notin> {''gpg'', ''ssh'', ''x509''}"
  shows "(gitConfig ''gpg.format'' = Some v \<longrightarrow>
            getSigningMethod gitConfig = (-1, Some ErrUnknownSigningMethod))
   \<and> (CHR '' '' \<notin> set k \<and> toLower k = ''gpg.format'' \<longrightarrow>
        GetGitConfig_body toLower config (k @ '' '' @ v) ''gpg.format'' = Some v
        \<and> getSigningMethod (GetGitConfig_body toLower config (k @ '' '' @ v))
            = (-1, Some ErrUnknownSigningMethod))"
proof -
  have m: "getSigningMethod c = (-1, Some ErrUnknownSigningMethod)"
    if "c ''gpg.format'' = Some v" for c
    using that assms(2) by (simp add: getSigningMethod_def)
  have "GetGitConfig_body toLower config (k @ '' '' @ v) ''gpg.format'' = Some v"
    if "CHR '' '' \<notin> set k" "toLower k = ''gpg.format''"
    using GetGitConfig_body_space [OF that(1), of toLower config v] that(2) by simp
  with m show ?thesis by blast
qed

theorem format_value_case_sensitive_witness:
  "getSigningMethod [''gpg.format'' \<mapsto> ''GPG''] = (-1, Some ErrUnknownSigningMethod)
   \<and> GetGitConfig_body ToLower_ascii Map.empty ''GPG.Format SSH'' ''gpg.format'' = Some ''SSH''
   \<and> getSigningMethod (GetGitConfig_body ToLower_ascii Map.empty ''GPG.Format SSH'')
       = (-1, Some ErrUnknownSigningMethod)
   \<and> getSigningMethod
         (fst (GetGitConfig ToLower_ascii TrimSpace_ascii (Inr (''Gpg.Format X509'' @ [CHR 0x0A]))))
       = (-1, Some ErrUnknownSigningMethod)
   \<and> getSigningMethod
         (fst (GetGitConfig ToLower_ascii TrimSpace_ascii (Inr (''Gpg.Format x509'' @ [CHR 0x0A]))))
       = (SigningMethodX509, None)"
proof -
  have l: "ToLower_ascii ''GPG'' = ''gpg''" "ToLower_ascii ''SSH'' = ''ssh''"
    "ToLower_ascii ''GPG.Format'' = ''gpg.format''"
    by (simp_all add: ToLower_ascii_def lower_byte_def)
  have a: "getSigningMethod [''gpg.format'' \<mapsto> ''GPG''] = (-1, Some ErrUnknownSigningMethod)"
    using format_value_case_sensitive [where v = "''GPG''"
        and gitConfig = "[''gpg.format'' \<mapsto> ''GPG'']"]
    by (simp add: l)
  have b: "GetGitConfig_body ToLower_ascii Map.empty ''GPG.Format SSH'' ''gpg.format''
             = Some ''SSH''
     \<and> getSigningMethod (GetGitConfig_body ToLower_ascii Map.empty ''GPG.Format SSH'')
         = (-1, Some ErrUnknownSigningMethod)"
    using format_value_case_sensitive [where v = "''SSH''" and k = "''GPG.Format''"
        and toLower = ToLower_ascii and config = Map.empty]
    by (simp add: l)
  have c: "getSigningMethod
         (fst (GetGitConfig ToLower_ascii TrimSpace_ascii (Inr (''Gpg.Format X509'' @ [CHR 0x0A]))))
       = (-1, Some ErrUnknownSigningMethod)"
    by (simp add: GetGitConfig_def GetGitConfig_body_def Split_def TrimSpace_ascii_def
        asciiSpace_def ToLower_ascii_def lower_byte_def getSigningMethod_def)
  have d: "getSigningMethod
         (fst (GetGitConfig ToLower_ascii TrimSpace_ascii (Inr (''Gpg.Format x509'' @ [CHR 0x0A]))))
       = (SigningMethodX509, None)"
    by (simp add: GetGitConfig_def GetGitConfig_body_def Split_def TrimSpace_ascii_def
        asciiSpace_def ToLower_ascii_def lower_byte_def getSigningMethod_def)
  from a b c d show ?thesis by blast
qed

end
